theory Spec2Isabelle
  imports Main "HOL-Library.Word"
begin

section \<open>Python values\<close>

text \<open>
  A Python \<open>str\<close> is a sequence of Unicode code points; it is modelled as the list of
  its code points. \<open>lit\<close> turns an ASCII literal into such a string.
\<close>

type_synonym pystr = "nat list"

definition lit :: "string \<Rightarrow> pystr" where
  "lit s = map of_char s"

text \<open>The placeholder for a missing year is the em dash, U+2014.\<close>

definition em_dash :: pystr where
  "em_dash = [8212]"

text \<open>
  The exceptions that the code can raise. \<open>HTTPError\<close> carries the status code of the
  response; \<open>RequestException\<close> stands for the transport failures of \<open>requests\<close>
  (connection errors, timeouts).
\<close>

datatype exn =
    AttributeError
  | TypeError
  | KeyError
  | IndexError
  | HTTPError nat
  | RequestException
  | JSONDecodeError
  | UnicodeEncodeError

text \<open>
  The sequencing of statements that may raise: the first exception ends the computation.
\<close>

definition bnd :: "exn + 'a \<Rightarrow> ('a \<Rightarrow> exn + 'b) \<Rightarrow> exn + 'b" where
  "bnd m f = (case m of Inl e \<Rightarrow> Inl e | Inr v \<Rightarrow> f v)"

text \<open>
  What \<open>response.json()\<close> returns: \<open>None\<close>, \<open>bool\<close>, \<open>int\<close>, \<open>float\<close> (the 64 bits
  of the double), \<open>str\<close>, \<open>list\<close> and \<open>dict\<close>. A \<open>dict\<close> is the list of its items, in
  insertion order, with distinct keys.
\<close>

datatype json =
    JNull
  | JBool bool
  | JInt int
  | JFloat "64 word"
  | JStr pystr
  | JArr "json list"
  | JObj "(pystr \<times> json) list"

text \<open>Truth value testing: \<open>None\<close>, \<open>False\<close>, zero and empty containers are false.\<close>

fun truthy :: "json \<Rightarrow> bool" where
  "truthy JNull = False"
| "truthy (JBool b) = b"
| "truthy (JInt i) = (i \<noteq> 0)"
| "truthy (JFloat w) = (w \<noteq> 0 \<and> w \<noteq> 0x8000000000000000)"
| "truthy (JStr s) = (s \<noteq> [])"
| "truthy (JArr xs) = (xs \<noteq> [])"
| "truthy (JObj kv) = (kv \<noteq> [])"

text \<open>\<open>a or b\<close>.\<close>

definition py_or :: "json \<Rightarrow> json \<Rightarrow> json" where
  "py_or a b = (if truthy a then a else b)"

text \<open>The value under a key of a \<open>dict\<close>, or a default.\<close>

definition field_or :: "(pystr \<times> json) list \<Rightarrow> pystr \<Rightarrow> json \<Rightarrow> json" where
  "field_or kv k d = (case map_of kv k of None \<Rightarrow> d | Some v \<Rightarrow> v)"

text \<open>
  \<open>obj.get(key, default)\<close>: only a \<open>dict\<close> has the method. \<open>obj.get(key)\<close> is
  \<open>dict_get obj key JNull\<close>.
\<close>

fun dict_get :: "json \<Rightarrow> pystr \<Rightarrow> json \<Rightarrow> exn + json" where
  "dict_get (JObj kv) k d = Inr (field_or kv k d)"
| "dict_get _ k d = Inl AttributeError"

text \<open>
  \<open>obj[0]\<close>: the first element of a list, the first character of a string; a \<open>dict\<close>
  from JSON has string keys only, so the key \<open>0\<close> is missing; the other values are
  not subscriptable.
\<close>

fun subscript0 :: "json \<Rightarrow> exn + json" where
  "subscript0 (JArr []) = Inl IndexError"
| "subscript0 (JArr (x # xs)) = Inr x"
| "subscript0 (JStr []) = Inl IndexError"
| "subscript0 (JStr (c # cs)) = Inr (JStr [c])"
| "subscript0 (JObj kv) = Inl KeyError"
| "subscript0 _ = Inl TypeError"

text \<open>
  \<open>for x in obj\<close>: the elements of a list, the characters of a string, the keys of a
  \<open>dict\<close>; the other values are not iterable.
\<close>

fun py_iter :: "json \<Rightarrow> exn + json list" where
  "py_iter (JArr xs) = Inr xs"
| "py_iter (JStr s) = Inr (map (\<lambda>c. JStr [c]) s)"
| "py_iter (JObj kv) = Inr (map (\<lambda>p. JStr (fst p)) kv)"
| "py_iter _ = Inl TypeError"

text \<open>
  \<open>str.strip()\<close> removes leading and trailing whitespace: the code points for which
  \<open>str.isspace\<close> holds.
\<close>

definition is_space :: "nat \<Rightarrow> bool" where
  "is_space c \<longleftrightarrow>
     (9 \<le> c \<and> c \<le> 13) \<or> (28 \<le> c \<and> c \<le> 32) \<or> c = 133 \<or> c = 160 \<or> c = 5760 \<or>
     (8192 \<le> c \<and> c \<le> 8202) \<or> c = 8232 \<or> c = 8233 \<or> c = 8239 \<or> c = 8287 \<or> c = 12288"

definition strip :: "pystr \<Rightarrow> pystr" where
  "strip s = rev (dropWhile is_space (rev (dropWhile is_space s)))"

text \<open>\<open>obj.strip()\<close> on a value: only a \<open>str\<close> has the method.\<close>

fun str_strip :: "json \<Rightarrow> exn + pystr" where
  "str_strip (JStr s) = Inr (strip s)"
| "str_strip _ = Inl AttributeError"

text \<open>\<open>sep.join(parts)\<close>.\<close>

fun join :: "pystr \<Rightarrow> pystr list \<Rightarrow> pystr" where
  "join sep [] = []"
| "join sep [x] = x"
| "join sep (x # y # ys) = x @ sep @ join sep (y # ys)"

section \<open>The normalizer: the loop body of \<open>fetch_crossref_results\<close>\<close>

text \<open>One row of the table: the dictionary appended to \<open>records\<close>.\<close>

record search_record =
  Title :: json
  DOI :: json
  Year :: json
  Authors :: json

text \<open>
  \<^verbatim>\<open>title_list = item.get("title") or []\<close>
  \<^verbatim>\<open>title = title_list[0] if title_list else "Untitled"\<close>
\<close>

definition item_title :: "json \<Rightarrow> exn + json" where
  "item_title item =
     bnd (dict_get item (lit ''title'') JNull) (\<lambda>t.
       let title_list = py_or t (JArr [])
       in if truthy title_list then subscript0 title_list else Inr (JStr (lit ''Untitled'')))"

text \<open>
  \<^verbatim>\<open>published = item.get("published-print") or item.get("published-online") or {}\<close>
  The second lookup is evaluated only when the first value is false.
\<close>

definition item_published :: "json \<Rightarrow> exn + json" where
  "item_published item =
     bnd (dict_get item (lit ''published-print'') JNull) (\<lambda>pp.
       if truthy pp then Inr pp
       else bnd (dict_get item (lit ''published-online'') JNull) (\<lambda>po.
         Inr (py_or po (JObj []))))"

text \<open>
  \<^verbatim>\<open>date_parts = published.get("date-parts") or [[]]\<close>
  \<^verbatim>\<open>year = date_parts[0][0] if date_parts and date_parts[0] else "\<emdash>"\<close>
\<close>

definition published_year :: "json \<Rightarrow> exn + json" where
  "published_year published =
     bnd (dict_get published (lit ''date-parts'') JNull) (\<lambda>dp.
       let date_parts = py_or dp (JArr [JArr []])
       in if truthy date_parts
          then bnd (subscript0 date_parts) (\<lambda>first.
                 if truthy first
                 then bnd (subscript0 date_parts) (\<lambda>entry. subscript0 entry)
                 else Inr (JStr em_dash))
          else Inr (JStr em_dash))"

definition item_year :: "json \<Rightarrow> exn + json" where
  "item_year item = bnd (item_published item) published_year"

text \<open>
  \<^verbatim>\<open>given = author.get("given", "").strip()\<close>
  \<^verbatim>\<open>family = author.get("family", "").strip()\<close>
  \<^verbatim>\<open>full_name = " ".join(part for part in [given, family] if part)\<close>
\<close>

definition full_name :: "json \<Rightarrow> exn + pystr" where
  "full_name author =
     bnd (dict_get author (lit ''given'') (JStr [])) (\<lambda>g.
     bnd (str_strip g) (\<lambda>given.
     bnd (dict_get author (lit ''family'') (JStr [])) (\<lambda>f.
     bnd (str_strip f) (\<lambda>family.
       Inr (join (lit '' '') (filter (\<lambda>part. part \<noteq> []) [given, family]))))))"

text \<open>
  The loop over the authors: a name is appended when it is not empty; an exception in
  one author ends the loop.
\<close>

fun author_names :: "json list \<Rightarrow> exn + pystr list" where
  "author_names [] = Inr []"
| "author_names (author # authors) =
     bnd (full_name author) (\<lambda>name.
     bnd (author_names authors) (\<lambda>names.
       Inr (if name \<noteq> [] then name # names else names)))"

text \<open>
  \<^verbatim>\<open>authors = item.get("author", [])\<close>
  \<^verbatim>\<open>author_str = "; ".join(author_names) if author_names else "Unknown"\<close>
\<close>

definition item_authors :: "json \<Rightarrow> exn + pystr" where
  "item_authors item =
     bnd (dict_get item (lit ''author'') (JArr [])) (\<lambda>authors.
     bnd (py_iter authors) (\<lambda>entries.
     bnd (author_names entries) (\<lambda>names.
       Inr (if names \<noteq> [] then join (lit ''; '') names else lit ''Unknown''))))"

text \<open>The body of the loop over the items, in the order of the source.\<close>

definition normalize_item :: "json \<Rightarrow> exn + search_record" where
  "normalize_item item =
     bnd (item_title item) (\<lambda>title.
     bnd (dict_get item (lit ''DOI'') (JStr [])) (\<lambda>doi.
     bnd (item_year item) (\<lambda>year.
     bnd (item_authors item) (\<lambda>author_str.
       Inr \<lparr>Title = title, DOI = doi, Year = year, Authors = JStr author_str\<rparr>))))"

fun normalize :: "json list \<Rightarrow> exn + search_record list" where
  "normalize [] = Inr []"
| "normalize (item # items) =
     bnd (normalize_item item) (\<lambda>r.
     bnd (normalize items) (\<lambda>rs. Inr (r # rs)))"

section \<open>Shapes of raw items\<close>


fun is_array :: "json \<Rightarrow> bool" where
  "is_array (JArr xs) = True"
| "is_array _ = False"

fun is_text :: "json \<Rightarrow> bool" where
  "is_text (JStr s) = True"
| "is_text _ = False"

text \<open>
  The shapes of the service's schema, each field present or not: the title is null or
  a list; a published field is null or an object whose date parts are null or a list of
  lists; the authors are a list of objects whose given and family names are strings.
\<close>

fun shaped_title :: "json \<Rightarrow> bool" where
  "shaped_title JNull = True"
| "shaped_title (JArr xs) = True"
| "shaped_title _ = False"

fun shaped_date_parts :: "json \<Rightarrow> bool" where
  "shaped_date_parts JNull = True"
| "shaped_date_parts (JArr entries) = list_all is_array entries"
| "shaped_date_parts _ = False"

fun shaped_published :: "json \<Rightarrow> bool" where
  "shaped_published JNull = True"
| "shaped_published (JObj kv) = shaped_date_parts (field_or kv (lit ''date-parts'') JNull)"
| "shaped_published _ = False"

fun shaped_author :: "json \<Rightarrow> bool" where
  "shaped_author (JObj kv) \<longleftrightarrow>
     is_text (field_or kv (lit ''given'') (JStr [])) \<and> is_text (field_or kv (lit ''family'') (JStr []))"
| "shaped_author _ = False"

fun shaped_authors :: "json \<Rightarrow> bool" where
  "shaped_authors (JArr authors) = list_all shaped_author authors"
| "shaped_authors _ = False"

fun well_shaped :: "json \<Rightarrow> bool" where
  "well_shaped (JObj kv) \<longleftrightarrow>
     shaped_title (field_or kv (lit ''title'') JNull) \<and>
     shaped_published (field_or kv (lit ''published-print'') JNull) \<and>
     shaped_published (field_or kv (lit ''published-online'') JNull) \<and>
     shaped_authors (field_or kv (lit ''author'') (JArr []))"
| "well_shaped _ = False"





text \<open>
  A published field without date information: absent, or an object whose date parts
  are absent, null, the empty list or the list of one empty entry.
\<close>

fun empty_date_parts :: "json option \<Rightarrow> bool" where
  "empty_date_parts None = True"
| "empty_date_parts (Some JNull) = True"
| "empty_date_parts (Some (JArr [])) = True"
| "empty_date_parts (Some (JArr [JArr []])) = True"
| "empty_date_parts _ = False"

fun lacks_date :: "json option \<Rightarrow> bool" where
  "lacks_date None = True"
| "lacks_date (Some (JObj kv)) = empty_date_parts (map_of kv (lit ''date-parts''))"
| "lacks_date _ = False"

text \<open>The first entry of a list of date parts that is populated, if there is one.\<close>

definition first_populated_entry :: "json list \<Rightarrow> json option" where
  "first_populated_entry entries = find truthy entries"

section \<open>Integers and text\<close>

text \<open>\<open>str(n)\<close> for an integer: the decimal digits, with a minus sign when negative.\<close>

fun digits_of :: "nat \<Rightarrow> pystr" where
  "digits_of n = (if n < 10 then [48 + n] else digits_of (n div 10) @ [48 + n mod 10])"

declare digits_of.simps [simp del]


definition str_int :: "int \<Rightarrow> pystr" where
  "str_int i = (if i < 0 then 45 # digits_of (nat (- i)) else digits_of (nat i))"

text \<open>
  \<open>int(s)\<close> for a string, base ten, as CPython 3.11 reads it. Whitespace is dropped at
  both ends: the characters of \<open>str.isspace\<close> but the four separators U+001C to
  U+001F, which \<open>int\<close> does not skip. A sign may come first, then decimal digits, where
  single underscores may stand between digits. The decimal digits are those of every
  script (Unicode 14): they come in blocks of ten, and \<open>decimal_zeros\<close> lists the zero
  of each block. A number of more than 4300 digits is refused. \<open>None\<close> is
  \<open>ValueError\<close>.
\<close>

definition int_space :: "nat \<Rightarrow> bool" where
  "int_space c \<longleftrightarrow>
     (9 \<le> c \<and> c \<le> 13) \<or> c = 32 \<or> c = 133 \<or> c = 160 \<or> c = 5760 \<or>
     (8192 \<le> c \<and> c \<le> 8202) \<or> c = 8232 \<or> c = 8233 \<or> c = 8239 \<or> c = 8287 \<or> c = 12288"

definition int_strip :: "pystr \<Rightarrow> pystr" where
  "int_strip s = rev (dropWhile int_space (rev (dropWhile int_space s)))"

definition decimal_zeros :: "nat list" where
  "decimal_zeros =
     [48, 1632, 1776, 1984, 2406, 2534, 2662, 2790, 2918, 3046, 3174, 3302, 3430, 3558,
      3664, 3792, 3872, 4160, 4240, 6112, 6160, 6470, 6608, 6784, 6800, 6992, 7088, 7232,
      7248, 42528, 43216, 43264, 43472, 43504, 43600, 44016, 65296, 66720, 68912, 69734,
      69872, 69942, 70096, 70384, 70736, 70864, 71248, 71360, 71472, 71904, 72016, 72784,
      73040, 73120, 92768, 92864, 93008, 120782, 120792, 120802, 120812, 120822, 123200,
      123632, 125264, 130032]"

definition decimal_value :: "nat \<Rightarrow> nat option" where
  "decimal_value c =
     map_option (\<lambda>z. c - z) (find (\<lambda>z. z \<le> c \<and> c < z + 10) decimal_zeros)"

fun digits_value :: "nat \<Rightarrow> pystr \<Rightarrow> nat option" where
  "digits_value acc [] = Some acc"
| "digits_value acc (c # cs) =
     (case decimal_value c of
        Some d \<Rightarrow> digits_value (10 * acc + d) cs
      | None \<Rightarrow>
          if c = 95 \<and> cs \<noteq> [] \<and> decimal_value (hd cs) \<noteq> None then digits_value acc cs
          else None)"

definition unsigned_value :: "pystr \<Rightarrow> nat option" where
  "unsigned_value s =
     (case s of [] \<Rightarrow> None
      | c # cs \<Rightarrow>
          (case decimal_value c of
             None \<Rightarrow> None
           | Some d \<Rightarrow>
               if 4300 < length (filter (\<lambda>x. x \<noteq> 95) s) then None
               else digits_value d cs))"

definition py_int :: "pystr \<Rightarrow> int option" where
  "py_int s =
     (case int_strip s of [] \<Rightarrow> None
      | c # cs \<Rightarrow>
          if c = 45 then map_option (\<lambda>n. - int n) (unsigned_value cs)
          else if c = 43 then map_option int (unsigned_value cs)
          else map_option int (unsigned_value (c # cs)))"

text \<open>
  \<open>text.encode("utf-8")\<close>: one to four bytes for each code point; a surrogate code point
  (U+D800 to U+DFFF) cannot be encoded and raises \<open>UnicodeEncodeError\<close>.
\<close>

definition utf8_char :: "nat \<Rightarrow> exn + nat list" where
  "utf8_char c =
     (if c < 128 then Inr [c]
      else if c < 2048 then Inr [192 + c div 64, 128 + c mod 64]
      else if 55296 \<le> c \<and> c < 57344 then Inl UnicodeEncodeError
      else if c < 65536 then Inr [224 + c div 4096, 128 + c div 64 mod 64, 128 + c mod 64]
      else Inr [240 + c div 262144, 128 + c div 4096 mod 64, 128 + c div 64 mod 64,
                128 + c mod 64])"

fun utf8_encode :: "pystr \<Rightarrow> exn + nat list" where
  "utf8_encode [] = Inr []"
| "utf8_encode (c # cs) =
     bnd (utf8_char c) (\<lambda>b.
     bnd (utf8_encode cs) (\<lambda>bs. Inr (b @ bs)))"

section \<open>The table and its CSV text\<close>

text \<open>
  \<open>pd.DataFrame.from_records(records)\<close>: the table is the list of its rows, in the
  order of the records; \<open>df.empty\<close> holds exactly when there is no row.
\<close>

type_synonym dataframe = "search_record list"

definition from_records :: "search_record list \<Rightarrow> dataframe" where
  "from_records records = records"

definition df_empty :: "dataframe \<Rightarrow> bool" where
  "df_empty df \<longleftrightarrow> df = []"

text \<open>
  \<open>df.to_csv(buffer, index=False)\<close> writes the column names and then one line for each
  row, through \<open>csv.writer\<close> with minimal quoting and the line terminator \<open>\n\<close> (the
  \<open>os.linesep\<close> of a POSIX system). A cell that is a \<open>str\<close> is written as it is and an
  \<open>int\<close> in decimal; these are the cells of a table whose records hold text and
  integer years. An \<open>int\<close> of more than 4300 digits is not among them: JSON text cannot
  carry it and \<open>str\<close> refuses it. The text of other values depends on the column types
  that pandas infers and is left unspecified.
\<close>

fun cell_text :: "json \<Rightarrow> pystr" where
  "cell_text (JStr s) = s"
| "cell_text (JInt i) = str_int i"


definition record_cells :: "search_record \<Rightarrow> json list" where
  "record_cells r = [Title r, DOI r, Year r, Authors r]"


definition csv_header :: "pystr list" where
  "csv_header = [lit ''Title'', lit ''DOI'', lit ''Year'', lit ''Authors'']"

text \<open>
  Minimal quoting, as the \<open>csv\<close> module of CPython 3.11 does it: a field is quoted when
  it holds the delimiter, the quote character, a line feed or a carriage return; inside
  the quotes, a quote character is doubled. A record that is one empty field is written
  as a pair of quote characters.
\<close>

definition csv_special :: "nat \<Rightarrow> bool" where
  "csv_special c \<longleftrightarrow> c = 44 \<or> c = 34 \<or> c = 10 \<or> c = 13"

definition quote_field :: "pystr \<Rightarrow> pystr" where
  "quote_field s =
     (if list_ex csv_special s
      then 34 # concat (map (\<lambda>c. if c = 34 then [34, 34] else [c]) s) @ [34]
      else s)"

fun csv_fields :: "pystr list \<Rightarrow> pystr" where
  "csv_fields [] = []"
| "csv_fields [f] = quote_field f"
| "csv_fields (f # g # fs) = quote_field f @ 44 # csv_fields (g # fs)"

definition csv_line :: "pystr list \<Rightarrow> pystr" where
  "csv_line fs = (if fs = [[]] then [34, 34] else csv_fields fs) @ [10]"

definition frame_rows :: "dataframe \<Rightarrow> pystr list list" where
  "frame_rows df = map (\<lambda>r. map cell_text (record_cells r)) df"

definition to_csv :: "dataframe \<Rightarrow> pystr" where
  "to_csv df = concat (map csv_line (csv_header # frame_rows df))"

section \<open>Reading CSV text back\<close>
















section \<open>The search client and the request handlers\<close>

text \<open>
  The module's globals \<open>_latest_results_df\<close> and \<open>_latest_query\<close>, together with what a
  handler leaves behind: the messages passed to \<open>flash\<close> and the GET requests sent to
  the search service.
\<close>

record get_request =
  q_url :: pystr
  q_query :: pystr
  q_filter :: pystr
  q_rows :: int
  q_timeout :: nat

record world =
  latest_results_df :: "dataframe option"
  latest_query :: "pystr option"
  flashed :: "pystr list"
  sent :: "get_request list"

definition initial_world :: world where
  "initial_world = \<lparr>latest_results_df = None, latest_query = None, flashed = [], sent = []\<rparr>"

definition flash :: "pystr \<Rightarrow> world \<Rightarrow> world" where
  "flash message w = w\<lparr>flashed := flashed w @ [message]\<rparr>"

text \<open>The cache: the two globals.\<close>

definition cache :: "world \<Rightarrow> dataframe option \<times> pystr option" where
  "cache w = (latest_results_df w, latest_query w)"

text \<open>
  What the search service does with a request: the transport fails, or a response comes
  back with a status code and a body, which is JSON text or not (\<open>None\<close>).
\<close>

datatype reply = ConnectionFailed | Response nat "json option"

type_synonym network = "get_request \<Rightarrow> reply"

definition CROSSREF_API_URL :: pystr where
  "CROSSREF_API_URL = lit ''https://api.crossref.org/works''"

text \<open>
  \<open>fetch_crossref_results\<close>. \<open>requests.get\<close> raises a \<open>RequestException\<close> when the
  transport fails; \<open>raise_for_status\<close> raises \<open>HTTPError\<close> for the status codes 400 to
  599; \<open>response.json()\<close> raises \<open>JSONDecodeError\<close> when the body is not JSON.
\<close>

definition search_request :: "pystr \<Rightarrow> int \<Rightarrow> get_request" where
  "search_request kw n =
     \<lparr>q_url = CROSSREF_API_URL, q_query = kw, q_filter = lit ''from-pub-date:2015'',
      q_rows = n, q_timeout = 10\<rparr>"

definition fetch_outcome :: "network \<Rightarrow> pystr \<Rightarrow> int \<Rightarrow> exn + dataframe" where
  "fetch_outcome net kw n =
     (case net (search_request kw n) of
        ConnectionFailed \<Rightarrow> Inl RequestException
      | Response status body \<Rightarrow>
          if 400 \<le> status \<and> status < 600 then Inl (HTTPError status)
          else (case body of
                  None \<Rightarrow> Inl JSONDecodeError
                | Some data \<Rightarrow>
                    bnd (dict_get data (lit ''message'') (JObj [])) (\<lambda>message.
                    bnd (dict_get message (lit ''items'') (JArr [])) (\<lambda>items.
                    bnd (py_iter items) (\<lambda>entries.
                    bnd (normalize entries) (\<lambda>records.
                      Inr (from_records records)))))))"

text \<open>The call sends the request, and returns or raises what \<open>fetch_outcome\<close> says.\<close>

definition fetch_crossref_results ::
  "network \<Rightarrow> pystr \<Rightarrow> int \<Rightarrow> world \<Rightarrow> (exn + dataframe) \<times> world" where
  "fetch_crossref_results net kw n w =
     (fetch_outcome net kw n, w\<lparr>sent := sent w @ [search_request kw n]\<rparr>)"

text \<open>The request: its method and the two fields of the form, each present or not.\<close>

datatype http_method = GET | HEAD | POST

record request =
  req_method :: http_method
  form_keyword :: "pystr option"
  form_rows :: "pystr option"

text \<open>
  The response: a redirect to \<open>url_for("index")\<close>, the template \<open>index.html\<close> with its
  arguments, a file, or the error page for an exception that no handler catches.
\<close>

record page =
  results :: "dataframe option"
  keyword :: pystr
  rows :: int

record attachment =
  content :: "nat list"
  mimetype :: pystr
  as_attachment :: bool
  download_name :: pystr

datatype response =
    RedirectToIndex
  | Render page
  | SendFile attachment
  | InternalServerError exn

text \<open>
  \<^verbatim>\<open>rows_raw = request.form.get("rows") or "10"\<close>
  \<^verbatim>\<open>try: rows = max(1, min(100, int(rows_raw)))\<close>
  \<^verbatim>\<open>except ValueError: rows = 10\<close>
\<close>

definition form_rows_value :: "pystr option \<Rightarrow> int" where
  "form_rows_value field =
     (let rows_raw = (case field of None \<Rightarrow> lit ''10''
                      | Some s \<Rightarrow> if s \<noteq> [] then s else lit ''10'')
      in case py_int rows_raw of
           Some n \<Rightarrow> max 1 (min 100 n)
         | None \<Rightarrow> 10)"

text \<open>\<^verbatim>\<open>keyword = (request.form.get("keyword") or "").strip()\<close>\<close>

definition form_keyword_value :: "pystr option \<Rightarrow> pystr" where
  "form_keyword_value field = strip (case field of None \<Rightarrow> [] | Some s \<Rightarrow> s)"

text \<open>
  The \<open>render_template\<close> call that ends \<open>index\<close>; it reads the globals as they are at
  that moment.
\<close>

definition render_index :: "dataframe option \<Rightarrow> pystr \<Rightarrow> int \<Rightarrow> world \<Rightarrow> response" where
  "render_index results_df kw n w =
     Render \<lparr>results = (case results_df of Some df \<Rightarrow> Some df | None \<Rightarrow> latest_results_df w),
             keyword = (if kw \<noteq> [] then kw
                        else (case latest_query w of None \<Rightarrow> [] | Some q \<Rightarrow> q)),
             rows = n\<rparr>"

text \<open>
  \<open>index\<close>. \<open>requests.HTTPError\<close> is caught first; the second handler catches the other
  subclasses of \<open>RequestException\<close>, among them the \<open>JSONDecodeError\<close> of \<open>requests\<close>.
  Any other exception leaves the handler.
\<close>

definition index :: "network \<Rightarrow> request \<Rightarrow> world \<Rightarrow> response \<times> world" where
  "index net req w =
     (if req_method req = POST then
        (let kw = form_keyword_value (form_keyword req);
             n = form_rows_value (form_rows req)
         in if kw = [] then
              (RedirectToIndex, flash (lit ''Please enter a research topic keyword.'') w)
            else
              (case fetch_crossref_results net kw n w of
                 (Inl e, w1) \<Rightarrow>
                   (case e of
                      HTTPError status \<Rightarrow>
                        (RedirectToIndex,
                         flash (lit ''Crossref API error: '' @ str_int (int status)) w1)
                    | _ \<Rightarrow>
                        if e = RequestException \<or> e = JSONDecodeError then
                          (RedirectToIndex,
                           flash (lit ''Unable to reach Crossref API. Please try again later.'') w1)
                        else (InternalServerError e, w1))
               | (Inr results_df, w1) \<Rightarrow>
                   (let w2 = (if df_empty results_df
                              then flash (lit ''No results found for that query after 2015.'') w1
                              else w1\<lparr>latest_results_df := Some results_df,
                                      latest_query := Some kw\<rparr>)
                    in (render_index (Some results_df) kw n w2, w2))))
      else (render_index None [] 10 w, w))"

text \<open>\<open>download_csv\<close>.\<close>

definition download_csv :: "world \<Rightarrow> response \<times> world" where
  "download_csv w =
     (case latest_results_df w of
        None \<Rightarrow> (RedirectToIndex, flash (lit ''No search results to download yet.'') w)
      | Some df \<Rightarrow>
          if df_empty df then
            (RedirectToIndex, flash (lit ''No search results to download yet.'') w)
          else
            (case utf8_encode (to_csv df) of
               Inl e \<Rightarrow> (InternalServerError e, w)
             | Inr bytes \<Rightarrow>
                 (SendFile \<lparr>content = bytes, mimetype = lit ''text/csv'',
                            as_attachment = True,
                            download_name = lit ''crossref_results.csv''\<rparr>, w)))"

text \<open>What a rendered page shows as its table.\<close>

fun shown_results :: "response \<Rightarrow> dataframe option" where
  "shown_results (Render p) = results p"
| "shown_results _ = None"

section \<open>Sample inputs\<close>

definition sample_item :: json where
  "sample_item = JObj
     [(lit ''title'', JArr [JStr (lit ''Graph search'')]),
      (lit ''DOI'', JStr (lit ''10.1000/182'')),
      (lit ''published-print'', JObj [(lit ''date-parts'', JArr [JArr [JInt 2020, JInt 5]])]),
      (lit ''author'', JArr [JObj [(lit ''given'', JStr (lit ''Ada'')),
                                   (lit ''family'', JStr (lit ''Lovelace''))]])]"

definition sample_record :: search_record where
  "sample_record = \<lparr>Title = JStr (lit ''Graph search''), DOI = JStr (lit ''10.1000/182''),
                     Year = JInt 2020, Authors = JStr (lit ''Ada Lovelace'')\<rparr>"

definition items_body :: "json list \<Rightarrow> json" where
  "items_body items = JObj [(lit ''message'', JObj [(lit ''items'', JArr items)])]"

definition net_one :: network where
  "net_one r = Response 200 (Some (items_body [sample_item]))"

definition net_none :: network where
  "net_none r = Response 200 (Some (items_body []))"

definition net_429 :: network where
  "net_429 r = Response 429 None"

definition net_300 :: network where
  "net_300 r = Response 300 (Some (items_body [sample_item]))"

definition net_down :: network where
  "net_down r = ConnectionFailed"

definition post_request :: "pystr \<Rightarrow> pystr \<Rightarrow> request" where
  "post_request kw n = \<lparr>req_method = POST, form_keyword = Some kw, form_rows = Some n\<rparr>"

definition get_page :: request where
  "get_page = \<lparr>req_method = GET, form_keyword = None, form_rows = None\<rparr>"

definition world_with_cache :: world where
  "world_with_cache =
     \<lparr>latest_results_df = Some [sample_record], latest_query = Some (lit ''graphs''),
      flashed = [], sent = []\<rparr>"







section \<open>Basic facts\<close>


lemma bnd_Inr: "bnd (Inr v) f = f v"
  by (simp add: bnd_def)

section \<open>The handlers, case by case\<close>

lemma cache_flash: "cache (flash m w) = cache w"
  by (simp add: cache_def flash_def)

lemma cache_sent: "cache (w\<lparr>sent := xs\<rparr>) = cache w"
  by (simp add: cache_def)

lemma index_post:
  assumes "req_method req = POST"
  shows "index net req w =
     (let kw = form_keyword_value (form_keyword req);
          n = form_rows_value (form_rows req);
          w1 = w\<lparr>sent := sent w @ [search_request kw n]\<rparr>
      in if kw = [] then (RedirectToIndex, flash (lit ''Please enter a research topic keyword.'') w)
         else (case fetch_outcome net kw n of
                 Inl e \<Rightarrow>
                   (case e of
                      HTTPError status \<Rightarrow>
                        (RedirectToIndex,
                         flash (lit ''Crossref API error: '' @ str_int (int status)) w1)
                    | _ \<Rightarrow>
                        if e = RequestException \<or> e = JSONDecodeError then
                          (RedirectToIndex,
                           flash (lit ''Unable to reach Crossref API. Please try again later.'') w1)
                        else (InternalServerError e, w1))
               | Inr results_df \<Rightarrow>
                   (let w2 = (if df_empty results_df
                              then flash (lit ''No results found for that query after 2015.'') w1
                              else w1\<lparr>latest_results_df := Some results_df,
                                      latest_query := Some kw\<rparr>)
                    in (render_index (Some results_df) kw n w2, w2))))"
  using assms
  by (simp add: index_def Let_def fetch_crossref_results_def)

lemma index_not_post:
  "req_method req \<noteq> POST \<Longrightarrow> index net req w = (render_index None [] 10 w, w)"
  by (simp add: index_def)

lemma fetch_outcome_http_error:
  "net (search_request kw n) = Response status body \<Longrightarrow> 400 \<le> status \<Longrightarrow> status < 600 \<Longrightarrow>
   fetch_outcome net kw n = Inl (HTTPError status)"
  by (simp add: fetch_outcome_def)

lemma fetch_outcome_down:
  "net (search_request kw n) = ConnectionFailed \<Longrightarrow> fetch_outcome net kw n = Inl RequestException"
  by (simp add: fetch_outcome_def)

lemma index_cache_cases:
  "cache (snd (index net req w)) = cache w \<or>
   (\<exists>df. req_method req = POST \<and> form_keyword_value (form_keyword req) \<noteq> [] \<and>
      fetch_outcome net (form_keyword_value (form_keyword req))
         (form_rows_value (form_rows req)) = Inr df \<and> \<not> df_empty df \<and>
      cache (snd (index net req w)) =
        (Some df, Some (form_keyword_value (form_keyword req))))"
proof (cases "req_method req = POST")
  case False
  then show ?thesis by (simp add: index_not_post)
next
  case True
  show ?thesis
    unfolding index_post [OF True] using True
    by (simp add: Let_def cache_flash cache_sent split: sum.split exn.split)
      (simp add: cache_def)
qed

lemma download_cache: "cache (snd (download_csv w)) = cache w"
  by (simp add: download_csv_def cache_flash split: option.split sum.split)

section \<open>The cache\<close>

text \<open>
  C2. The cache (the cached table and its keyword) is empty at the start. A request to
  \<open>index\<close> changes it only when the request is a POST whose search returned a table
  that is not empty, and then the cache holds that table and the submitted keyword;
  every other request to \<open>index\<close>, each of its failure paths and every download
  leave it as it was.
\<close>

theorem cache_lifecycle:
  "cache initial_world = (None, None) \<and>
   (cache (snd (index net req w)) \<noteq> cache w \<longrightarrow>
      req_method req = POST \<and>
      (\<exists>df. fetch_outcome net (form_keyword_value (form_keyword req))
               (form_rows_value (form_rows req)) = Inr df \<and> \<not> df_empty df \<and>
            cache (snd (index net req w)) =
              (Some df, Some (form_keyword_value (form_keyword req))))) \<and>
   cache (snd (download_csv w)) = cache w"
proof (intro conjI impI)
  show "cache initial_world = (None, None)"
    by (simp add: cache_def initial_world_def)
next
  assume changed: "cache (snd (index net req w)) \<noteq> cache w"
  with index_cache_cases [of net req w]
  show "req_method req = POST" by blast
  from changed index_cache_cases [of net req w]
  show "\<exists>df. fetch_outcome net (form_keyword_value (form_keyword req))
               (form_rows_value (form_rows req)) = Inr df \<and> \<not> df_empty df \<and>
            cache (snd (index net req w)) =
              (Some df, Some (form_keyword_value (form_keyword req)))"
    by blast
next
  show "cache (snd (download_csv w)) = cache w"
    by (rule download_cache)
qed

text \<open>The sample search, evaluated.\<close>

lemma sample_fetch: "fetch_outcome net_one kw n = Inr [sample_record]"
  by (simp add: field_or_def fetch_outcome_def net_one_def items_body_def sample_item_def sample_record_def
      from_records_def normalize_item_def item_title_def item_year_def item_published_def
      published_year_def item_authors_def full_name_def bnd_def py_or_def lit_def strip_def
      is_space_def)

lemma kw_graphs: "form_keyword_value (Some (lit ''graphs'')) = lit ''graphs''"
  by (simp add: form_keyword_value_def strip_def is_space_def lit_def)

lemma sample_index:
  "index net_one (post_request (lit ''graphs'') (lit ''5'')) initial_world =
    (Render \<lparr>results = Some [sample_record], keyword = lit ''graphs'',
             rows = form_rows_value (Some (lit ''5''))\<rparr>,
     initial_world\<lparr>sent := [search_request (lit ''graphs'') (form_rows_value (Some (lit ''5'')))],
                    latest_results_df := Some [sample_record],
                    latest_query := Some (lit ''graphs'')\<rparr>)"
proof -
  have post: "req_method (post_request (lit ''graphs'') (lit ''5'')) = POST"
    by (simp add: post_request_def)
  have kw: "form_keyword_value (form_keyword (post_request (lit ''graphs'') (lit ''5''))) = lit ''graphs''"
    by (simp add: post_request_def kw_graphs)
  have ne: "lit ''graphs'' \<noteq> []"
    by (simp add: lit_def)
  show ?thesis
    unfolding index_post [OF post] Let_def kw
    by (simp add: ne sample_fetch df_empty_def render_index_def post_request_def
        initial_world_def)
qed

theorem cache_lifecycle_witness:
  "cache (snd (index net_one (post_request (lit ''graphs'') (lit ''5'')) initial_world))
     \<noteq> cache initial_world \<and>
   req_method (post_request (lit ''graphs'') (lit ''5'')) = POST \<and>
   cache (snd (index net_one (post_request (lit ''graphs'') (lit ''5'')) initial_world)) =
     (Some [sample_record], Some (lit ''graphs''))"
proof -
  let ?req = "post_request (lit ''graphs'') (lit ''5'')"
  have changed: "cache (snd (index net_one ?req initial_world)) \<noteq> cache initial_world"
    unfolding sample_index by (simp add: cache_def initial_world_def)
  from cache_lifecycle [of net_one ?req initial_world] changed
  show ?thesis
    unfolding sample_index by (simp add: cache_def post_request_def)
qed


text \<open>
  C10. A download changes neither the cached table nor the cached keyword, whatever the
  cache holds.
\<close>

theorem download_csv_keeps_cache:
  "latest_results_df (snd (download_csv w)) = latest_results_df w \<and>
   latest_query (snd (download_csv w)) = latest_query w"
  using download_cache [of w] by (simp add: cache_def)

section \<open>The rows value\<close>

lemma sent_flash: "sent (flash m w) = sent w"
  by (simp add: flash_def)

lemma flashed_flash: "flashed (flash m w) = flashed w @ [m]"
  by (simp add: flash_def)

lemma index_sent:
  assumes "req_method req = POST" and "form_keyword_value (form_keyword req) \<noteq> []"
  shows "sent (snd (index net req w)) =
           sent w @ [search_request (form_keyword_value (form_keyword req))
                       (form_rows_value (form_rows req))]"
  unfolding index_post [OF assms(1)] using assms(2)
  by (simp add: Let_def sent_flash split: sum.split exn.split)

lemma py_int_empty: "py_int [] = None"
  by (simp add: py_int_def int_strip_def)

lemma py_int_ten: "py_int (lit ''10'') = Some 10"
  by (simp add: py_int_def int_strip_def int_space_def lit_def unsigned_value_def
      decimal_value_def decimal_zeros_def)

text \<open>
  A separator U+001C before the digit is no whitespace for \<open>int\<close>; the Arabic-Indic
  digits are digits; and a number of more than 4300 digits is refused.
\<close>

lemma py_int_separator: "py_int [28, 53] = None"
  by (simp add: py_int_def int_strip_def int_space_def unsigned_value_def
      decimal_value_def decimal_zeros_def)

lemma py_int_arabic_indic: "py_int [1637, 1632] = Some 50"
  by (simp add: py_int_def int_strip_def int_space_def unsigned_value_def
      decimal_value_def decimal_zeros_def)

lemma unsigned_value_long:
  "decimal_value c = Some d \<Longrightarrow> 4300 < length (filter (\<lambda>x. x \<noteq> 95) (c # cs)) \<Longrightarrow>
   unsigned_value (c # cs) = None"
  by (simp add: unsigned_value_def)

lemma form_rows_value_Some:
  "form_rows_value (Some s) = (case py_int s of None \<Rightarrow> 10 | Some n \<Rightarrow> max 1 (min 100 n))"
  by (cases "s = []") (simp_all add: form_rows_value_def py_int_empty py_int_ten)

lemma form_rows_value_None: "form_rows_value None = 10"
  by (simp add: form_rows_value_def py_int_ten)

lemma form_rows_value_range: "1 \<le> form_rows_value f \<and> form_rows_value f \<le> 100"
  by (simp add: form_rows_value_def Let_def split: option.split)

text \<open>
  C7. For a POST with a keyword, the request sent to the search service carries as
  \<open>rows\<close> the integer parsed from the form's rows string, clamped into 1 to 100, and 10
  when the string does not parse as an integer.
\<close>

theorem rows_passed_to_client:
  assumes "req_method req = POST"
    and "form_keyword_value (form_keyword req) \<noteq> []"
    and "form_rows req = Some s"
  shows "sent (snd (index net req w)) =
           sent w @ [search_request (form_keyword_value (form_keyword req))
                       (case py_int s of None \<Rightarrow> 10 | Some n \<Rightarrow> max 1 (min 100 n))] \<and>
         1 \<le> (case py_int s of None \<Rightarrow> 10 | Some n \<Rightarrow> max 1 (min 100 n)) \<and>
         (case py_int s of None \<Rightarrow> 10 | Some n \<Rightarrow> max 1 (min 100 n)) \<le> (100::int)"
  using index_sent [OF assms(1,2), of net w] form_rows_value_range [of "Some s"]
  by (simp add: assms(3) form_rows_value_Some)

lemma py_int_500: "py_int (lit ''500'') = Some 500"
  by (simp add: py_int_def int_strip_def int_space_def lit_def unsigned_value_def
      decimal_value_def decimal_zeros_def)

lemma py_int_abc: "py_int (lit ''abc'') = None"
  by (simp add: py_int_def int_strip_def int_space_def lit_def unsigned_value_def
      decimal_value_def decimal_zeros_def)

lemma py_int_zero: "py_int (lit ''0'') = Some 0"
  by (simp add: py_int_def int_strip_def int_space_def lit_def unsigned_value_def
      decimal_value_def decimal_zeros_def)

text \<open>The rows strings \<open>500\<close>, \<open>0\<close> and \<open>abc\<close> give 100, 1 and 10.\<close>

theorem rows_passed_to_client_witness:
  "sent (snd (index net_one (post_request (lit ''graphs'') (lit ''500'')) initial_world)) =
     [search_request (lit ''graphs'') 100] \<and>
   sent (snd (index net_one (post_request (lit ''graphs'') (lit ''0'')) initial_world)) =
     [search_request (lit ''graphs'') 1] \<and>
   sent (snd (index net_one (post_request (lit ''graphs'') (lit ''abc'')) initial_world)) =
     [search_request (lit ''graphs'') 10]"
proof -
  have post: "req_method (post_request (lit ''graphs'') r) = POST" for r
    by (simp add: post_request_def)
  have kw: "form_keyword_value (form_keyword (post_request (lit ''graphs'') r)) \<noteq> []" for r
    by (simp add: post_request_def kw_graphs) (simp add: lit_def)
  have rows: "form_rows (post_request (lit ''graphs'') r) = Some r" for r
    by (simp add: post_request_def)
  have kw': "form_keyword (post_request (lit ''graphs'') r) = Some (lit ''graphs'')" for r
    by (simp add: post_request_def)
  show ?thesis
    using rows_passed_to_client [where req = "post_request (lit ''graphs'') (lit ''500'')"
          and s = "lit ''500''" and net = net_one and w = initial_world, OF post kw rows]
      rows_passed_to_client [where req = "post_request (lit ''graphs'') (lit ''0'')"
          and s = "lit ''0''" and net = net_one and w = initial_world, OF post kw rows]
      rows_passed_to_client [where req = "post_request (lit ''graphs'') (lit ''abc'')"
          and s = "lit ''abc''" and net = net_one and w = initial_world, OF post kw rows]
    by (simp add: kw' kw_graphs py_int_500 py_int_abc py_int_zero initial_world_def)
qed

section \<open>Failures of a search\<close>

text \<open>
  C3, as the code has it. For a POST: when the keyword is empty after trimming, the handler flashes the
  validation message and redirects, sends nothing to the search service and leaves the
  cache unchanged; when the service answers with a status from 400 to 599
  (\<open>HTTPError\<close>), the handler flashes a message that ends with the status code and
  redirects, the cache unchanged; when the transport fails (\<open>RequestException\<close>), the
  handler flashes the unreachable-service message and redirects, the cache unchanged.
\<close>

theorem search_failures_redirect:
  assumes "req_method req = POST"
    and "kw = form_keyword_value (form_keyword req)"
    and "n = form_rows_value (form_rows req)"
  shows "(kw = [] \<longrightarrow>
            index net req w =
              (RedirectToIndex, flash (lit ''Please enter a research topic keyword.'') w) \<and>
            sent (snd (index net req w)) = sent w \<and>
            cache (snd (index net req w)) = cache w) \<and>
         (kw \<noteq> [] \<and> net (search_request kw n) = Response status body \<and>
          400 \<le> status \<and> status < 600 \<longrightarrow>
            index net req w =
              (RedirectToIndex,
               flash (lit ''Crossref API error: '' @ str_int (int status))
                 (w\<lparr>sent := sent w @ [search_request kw n]\<rparr>)) \<and>
            cache (snd (index net req w)) = cache w) \<and>
         (kw \<noteq> [] \<and> net (search_request kw n) = ConnectionFailed \<longrightarrow>
            index net req w =
              (RedirectToIndex,
               flash (lit ''Unable to reach Crossref API. Please try again later.'')
                 (w\<lparr>sent := sent w @ [search_request kw n]\<rparr>)) \<and>
            cache (snd (index net req w)) = cache w)"
proof (intro conjI impI)
  assume "kw = []"
  then have eq: "index net req w =
      (RedirectToIndex, flash (lit ''Please enter a research topic keyword.'') w)"
    unfolding index_post [OF assms(1)] using assms(2) by (simp add: Let_def)
  show "index net req w =
      (RedirectToIndex, flash (lit ''Please enter a research topic keyword.'') w)"
    by (rule eq)
  show "sent (snd (index net req w)) = sent w"
    by (simp add: eq sent_flash)
  show "cache (snd (index net req w)) = cache w"
    by (simp add: eq cache_flash)
next
  assume h: "kw \<noteq> [] \<and> net (search_request kw n) = Response status body \<and>
          400 \<le> status \<and> status < 600"
  then have out: "fetch_outcome net kw n = Inl (HTTPError status)"
    by (simp add: fetch_outcome_http_error)
  have eq: "index net req w =
      (RedirectToIndex,
       flash (lit ''Crossref API error: '' @ str_int (int status))
         (w\<lparr>sent := sent w @ [search_request kw n]\<rparr>))"
    unfolding index_post [OF assms(1)] using assms(2,3) h out by (simp add: Let_def)
  show "index net req w =
      (RedirectToIndex,
       flash (lit ''Crossref API error: '' @ str_int (int status))
         (w\<lparr>sent := sent w @ [search_request kw n]\<rparr>))"
    by (rule eq)
  show "cache (snd (index net req w)) = cache w"
    by (simp add: eq cache_flash cache_sent)
next
  assume h: "kw \<noteq> [] \<and> net (search_request kw n) = ConnectionFailed"
  then have out: "fetch_outcome net kw n = Inl RequestException"
    by (simp add: fetch_outcome_down)
  have eq: "index net req w =
      (RedirectToIndex,
       flash (lit ''Unable to reach Crossref API. Please try again later.'')
         (w\<lparr>sent := sent w @ [search_request kw n]\<rparr>))"
    unfolding index_post [OF assms(1)] using assms(2,3) h out by (simp add: Let_def)
  show "index net req w =
      (RedirectToIndex,
       flash (lit ''Unable to reach Crossref API. Please try again later.'')
         (w\<lparr>sent := sent w @ [search_request kw n]\<rparr>))"
    by (rule eq)
  show "cache (snd (index net req w)) = cache w"
    by (simp add: eq cache_flash cache_sent)
qed


lemma str_int_429: "str_int 429 = lit ''429''"
  by (simp add: str_int_def digits_of.simps lit_def)

lemma kw_blank: "form_keyword_value (Some (lit ''  '')) = []"
  by (simp add: form_keyword_value_def strip_def is_space_def lit_def)

text \<open>A blank keyword, a response with status 429 and a failed connection.\<close>

theorem search_failures_redirect_witness:
  "index net_one (post_request (lit ''  '') (lit ''5'')) world_with_cache =
     (RedirectToIndex,
      flash (lit ''Please enter a research topic keyword.'') world_with_cache) \<and>
   sent (snd (index net_one (post_request (lit ''  '') (lit ''5'')) world_with_cache)) = [] \<and>
   fst (index net_429 (post_request (lit ''graphs'') (lit ''5'')) world_with_cache) =
     RedirectToIndex \<and>
   flashed (snd (index net_429 (post_request (lit ''graphs'') (lit ''5'')) world_with_cache)) =
     [lit ''Crossref API error: 429''] \<and>
   cache (snd (index net_429 (post_request (lit ''graphs'') (lit ''5'')) world_with_cache)) =
     cache world_with_cache \<and>
   fst (index net_down (post_request (lit ''graphs'') (lit ''5'')) world_with_cache) =
     RedirectToIndex \<and>
   flashed (snd (index net_down (post_request (lit ''graphs'') (lit ''5'')) world_with_cache)) =
     [lit ''Unable to reach Crossref API. Please try again later.''] \<and>
   cache (snd (index net_down (post_request (lit ''graphs'') (lit ''5'')) world_with_cache)) =
     cache world_with_cache"
proof -
  have post: "req_method (post_request k r) = POST" for k r
    by (simp add: post_request_def)
  have blank: "[] = form_keyword_value (form_keyword (post_request (lit ''  '') (lit ''5'')))"
    by (simp add: post_request_def kw_blank)
  have graphs: "lit ''graphs'' = form_keyword_value (form_keyword (post_request (lit ''graphs'') (lit ''5'')))"
    by (simp add: post_request_def kw_graphs)
  have ne: "lit ''graphs'' \<noteq> []"
    by (simp add: lit_def)
  have a: "index net_one (post_request (lit ''  '') (lit ''5'')) world_with_cache =
     (RedirectToIndex,
      flash (lit ''Please enter a research topic keyword.'') world_with_cache) \<and>
     sent (snd (index net_one (post_request (lit ''  '') (lit ''5'')) world_with_cache)) =
       sent world_with_cache"
    using search_failures_redirect [OF post blank refl, where net = net_one
        and w = world_with_cache]
    by (simp add: sent_flash)
  have b: "index net_429 (post_request (lit ''graphs'') (lit ''5'')) world_with_cache =
      (RedirectToIndex,
       flash (lit ''Crossref API error: '' @ str_int (int 429))
         (world_with_cache\<lparr>sent := sent world_with_cache @
            [search_request (lit ''graphs'')
               (form_rows_value (form_rows (post_request (lit ''graphs'') (lit ''5''))))]\<rparr>)) \<and>
      cache (snd (index net_429 (post_request (lit ''graphs'') (lit ''5'')) world_with_cache)) =
        cache world_with_cache"
    using search_failures_redirect [OF post graphs refl, where net = net_429 and status = 429
        and body = None and w = world_with_cache] ne
    by (simp add: net_429_def cache_flash cache_sent)
  have c: "index net_down (post_request (lit ''graphs'') (lit ''5'')) world_with_cache =
      (RedirectToIndex,
       flash (lit ''Unable to reach Crossref API. Please try again later.'')
         (world_with_cache\<lparr>sent := sent world_with_cache @
            [search_request (lit ''graphs'')
               (form_rows_value (form_rows (post_request (lit ''graphs'') (lit ''5''))))]\<rparr>)) \<and>
      cache (snd (index net_down (post_request (lit ''graphs'') (lit ''5'')) world_with_cache)) =
        cache world_with_cache"
    using search_failures_redirect [OF post graphs refl, where net = net_down
        and w = world_with_cache] ne
    by (simp add: net_down_def cache_flash cache_sent)
  have msg: "lit ''Crossref API error: '' @ str_int 429 = lit ''Crossref API error: 429''"
    unfolding str_int_429 by (simp add: lit_def)
  have fl: "flashed world_with_cache = []" "sent world_with_cache = []"
    by (simp_all add: world_with_cache_def)
  show ?thesis
    using a b c by (simp add: flashed_flash sent_flash cache_flash cache_sent msg fl)
qed

lemma redirect_fetch: "fetch_outcome net_300 kw n = Inr [sample_record]"
  by (simp add: field_or_def fetch_outcome_def net_300_def items_body_def sample_item_def sample_record_def
      from_records_def normalize_item_def item_title_def item_year_def item_published_def
      published_year_def item_authors_def full_name_def bnd_def py_or_def lit_def strip_def
      is_space_def)

lemma py_int_five: "py_int (lit ''5'') = Some 5"
  by (simp add: py_int_def int_strip_def int_space_def lit_def unsigned_value_def
      decimal_value_def decimal_zeros_def)

text \<open>
  C3 as stated fails for a status outside 200 to 299 that \<open>raise_for_status\<close> lets
  pass: with the final status 300 and a body of one item the handler renders the page,
  flashes nothing and overwrites the cache.
\<close>

theorem redirect_status_counterexample:
  "net_300 (search_request (lit ''graphs'') 5) = Response 300 (Some (items_body [sample_item])) \<and>
   index net_300 (post_request (lit ''graphs'') (lit ''5'')) initial_world =
     (Render \<lparr>results = Some [sample_record], keyword = lit ''graphs'', rows = 5\<rparr>,
      initial_world\<lparr>sent := [search_request (lit ''graphs'') 5],
                     latest_results_df := Some [sample_record],
                     latest_query := Some (lit ''graphs'')\<rparr>) \<and>
   flashed (snd (index net_300 (post_request (lit ''graphs'') (lit ''5'')) initial_world)) = [] \<and>
   cache (snd (index net_300 (post_request (lit ''graphs'') (lit ''5'')) initial_world)) =
     (Some [sample_record], Some (lit ''graphs'')) \<and>
   cache initial_world = (None, None)"
proof -
  have post: "req_method (post_request (lit ''graphs'') (lit ''5'')) = POST"
    by (simp add: post_request_def)
  have kw: "form_keyword_value (form_keyword (post_request (lit ''graphs'') (lit ''5''))) = lit ''graphs''"
    by (simp add: post_request_def kw_graphs)
  have n: "form_rows_value (form_rows (post_request (lit ''graphs'') (lit ''5''))) = 5"
    by (simp add: post_request_def form_rows_value_Some py_int_five)
  have ne: "lit ''graphs'' \<noteq> []"
    by (simp add: lit_def)
  have eq: "index net_300 (post_request (lit ''graphs'') (lit ''5'')) initial_world =
     (Render \<lparr>results = Some [sample_record], keyword = lit ''graphs'', rows = 5\<rparr>,
      initial_world\<lparr>sent := [search_request (lit ''graphs'') 5],
                     latest_results_df := Some [sample_record],
                     latest_query := Some (lit ''graphs'')\<rparr>)"
    unfolding index_post [OF post] Let_def kw n
    by (simp add: ne redirect_fetch df_empty_def render_index_def initial_world_def)
  have a: "net_300 (search_request (lit ''graphs'') 5) = Response 300 (Some (items_body [sample_item]))"
    by (simp add: net_300_def)
  have f: "flashed (snd (index net_300 (post_request (lit ''graphs'') (lit ''5'')) initial_world)) = []"
    unfolding eq by (simp add: initial_world_def)
  have c: "cache (snd (index net_300 (post_request (lit ''graphs'') (lit ''5'')) initial_world)) =
     (Some [sample_record], Some (lit ''graphs''))"
    unfolding eq by (simp add: cache_def)
  have i: "cache initial_world = (None, None)"
    by (simp add: cache_def initial_world_def)
  from a eq f c i show ?thesis
    by simp
qed


section \<open>A search without results\<close>

text \<open>
  C1, as the code has it. For a POST with a keyword whose search succeeds with an empty
  table, the handler flashes the no-results message, leaves the cache unchanged and
  renders the page with the new, empty table and the submitted keyword; the table
  cached before is still in the cache, and the next request that is not a POST shows
  it.
\<close>

theorem empty_search_renders_empty_table:
  assumes "req_method req = POST"
    and "kw = form_keyword_value (form_keyword req)"
    and "n = form_rows_value (form_rows req)"
    and "kw \<noteq> []"
    and "fetch_outcome net kw n = Inr df"
    and "df_empty df"
    and "req_method req' \<noteq> POST"
  shows "index net req w =
           (Render \<lparr>results = Some [], keyword = kw, rows = n\<rparr>,
            flash (lit ''No results found for that query after 2015.'')
              (w\<lparr>sent := sent w @ [search_request kw n]\<rparr>)) \<and>
         cache (snd (index net req w)) = cache w \<and>
         shown_results (fst (index net' req' (snd (index net req w)))) = latest_results_df w"
proof -
  have eq: "index net req w =
           (Render \<lparr>results = Some [], keyword = kw, rows = n\<rparr>,
            flash (lit ''No results found for that query after 2015.'')
              (w\<lparr>sent := sent w @ [search_request kw n]\<rparr>))"
    unfolding index_post [OF assms(1)] using assms(2-6)
    by (simp add: Let_def render_index_def df_empty_def)
  have c: "cache (snd (index net req w)) = cache w"
    by (simp add: eq cache_flash cache_sent)
  have "shown_results (fst (index net' req' (snd (index net req w)))) =
          latest_results_df (snd (index net req w))"
    by (simp add: index_not_post [OF assms(7)] render_index_def)
  also have "\<dots> = latest_results_df w"
    using c by (simp add: cache_def)
  finally show ?thesis using eq c by simp
qed

lemma none_fetch: "fetch_outcome net_none kw n = Inr []"
  by (simp add: field_or_def fetch_outcome_def net_none_def items_body_def from_records_def bnd_def lit_def)

text \<open>
  C1 as stated fails: with one record cached, a POST whose search returns no item is
  answered by a page whose table is the empty one, not the cached one.
\<close>

theorem empty_search_page_counterexample:
  "fetch_outcome net_none (lit ''graphs'') 10 = Inr [] \<and>
   latest_results_df world_with_cache = Some [sample_record] \<and>
   shown_results (fst (index net_none (post_request (lit ''graphs'') (lit ''10''))
                         world_with_cache)) = Some [] \<and>
   shown_results (fst (index net_none (post_request (lit ''graphs'') (lit ''10''))
                         world_with_cache)) \<noteq> latest_results_df world_with_cache"
proof -
  have post: "req_method (post_request (lit ''graphs'') (lit ''10'')) = POST"
    by (simp add: post_request_def)
  have kw: "form_keyword_value (form_keyword (post_request (lit ''graphs'') (lit ''10''))) =
      lit ''graphs''"
    by (simp add: post_request_def kw_graphs)
  have ne: "lit ''graphs'' \<noteq> []"
    by (simp add: lit_def)
  have shown: "shown_results (fst (index net_none (post_request (lit ''graphs'') (lit ''10''))
                         world_with_cache)) = Some []"
    unfolding index_post [OF post] Let_def kw
    by (simp add: ne none_fetch df_empty_def render_index_def)
  have cached: "latest_results_df world_with_cache = Some [sample_record]"
    by (simp add: world_with_cache_def)
  show ?thesis
    by (simp add: none_fetch shown cached)
qed

text \<open>The same search, followed by a GET.\<close>

theorem empty_search_renders_empty_table_witness:
  "index net_none (post_request (lit ''graphs'') (lit ''10'')) world_with_cache =
     (Render \<lparr>results = Some [], keyword = lit ''graphs'', rows = 10\<rparr>,
      flash (lit ''No results found for that query after 2015.'')
        (world_with_cache\<lparr>sent := [search_request (lit ''graphs'') 10]\<rparr>)) \<and>
   cache (snd (index net_none (post_request (lit ''graphs'') (lit ''10'')) world_with_cache)) =
     cache world_with_cache \<and>
   shown_results (fst (index net_one get_page
       (snd (index net_none (post_request (lit ''graphs'') (lit ''10'')) world_with_cache)))) =
     Some [sample_record]"
proof -
  have post: "req_method (post_request (lit ''graphs'') (lit ''10'')) = POST"
    by (simp add: post_request_def)
  have kw: "lit ''graphs'' = form_keyword_value (form_keyword (post_request (lit ''graphs'') (lit ''10'')))"
    by (simp add: post_request_def kw_graphs)
  have n: "10 = form_rows_value (form_rows (post_request (lit ''graphs'') (lit ''10'')))"
    by (simp add: post_request_def form_rows_value_Some py_int_ten)
  have ne: "lit ''graphs'' \<noteq> []"
    by (simp add: lit_def)
  have get: "req_method get_page \<noteq> POST"
    by (simp add: get_page_def)
  have e: "df_empty []"
    by (simp add: df_empty_def)
  note t = empty_search_renders_empty_table [OF post kw n ne none_fetch e get,
        of world_with_cache net_one]
  have s: "sent world_with_cache = []"
    and l: "latest_results_df world_with_cache = Some [sample_record]"
    by (simp_all add: world_with_cache_def)
  from t [THEN conjunct1] t [THEN conjunct2, THEN conjunct1]
    t [THEN conjunct2, THEN conjunct2]
  show ?thesis
    unfolding s l by (intro conjI) simp_all
qed


section \<open>The normalizer on items of the expected shapes\<close>

lemma published_year_shaped:
  assumes "shaped_date_parts (field_or kv (lit ''date-parts'') JNull)"
  shows "\<exists>y. published_year (JObj kv) = Inr y"
proof (cases "field_or kv (lit ''date-parts'') JNull")
  case (JArr entries)
  show ?thesis
  proof (cases entries)
    case Nil
    with JArr show ?thesis
      by (simp add: published_year_def bnd_Inr py_or_def)
  next
    case (Cons e es)
    with JArr assms obtain ys where e: "e = JArr ys"
      by (cases e) simp_all
    show ?thesis
      using JArr Cons e
      by (cases ys) (simp_all add: published_year_def bnd_Inr py_or_def)
  qed
qed (use assms in \<open>simp_all add: published_year_def bnd_Inr py_or_def\<close>)

lemma item_year_shaped:
  assumes "shaped_published (field_or kv (lit ''published-print'') JNull)"
    and "shaped_published (field_or kv (lit ''published-online'') JNull)"
  shows "\<exists>y. item_year (JObj kv) = Inr y"
proof -
  have empty: "\<exists>y. published_year (JObj []) = Inr y"
    by (rule published_year_shaped) (simp add: field_or_def)
  have shaped: "\<exists>y. published_year v = Inr y" if "shaped_published v" "truthy v" for v
    using that by (cases v) (simp_all add: published_year_shaped)
  show ?thesis
    using assms empty shaped
    by (auto simp add: item_year_def item_published_def bnd_Inr py_or_def)
qed

lemma item_title_shaped:
  assumes "shaped_title (field_or kv (lit ''title'') JNull)"
  shows "\<exists>t. item_title (JObj kv) = Inr t"
proof (cases "field_or kv (lit ''title'') JNull")
  case (JArr xs)
  then show ?thesis
    by (cases xs) (simp_all add: item_title_def bnd_Inr py_or_def)
qed (use assms in \<open>simp_all add: item_title_def bnd_Inr py_or_def\<close>)

lemma full_name_shaped:
  assumes "shaped_author a"
  shows "\<exists>n. full_name a = Inr n"
proof (cases a)
  case (JObj kv)
  with assms obtain g f where "field_or kv (lit ''given'') (JStr []) = JStr g"
    and "field_or kv (lit ''family'') (JStr []) = JStr f"
    by (cases "field_or kv (lit ''given'') (JStr [])"; cases "field_or kv (lit ''family'') (JStr [])")
      simp_all
  with JObj show ?thesis
    by (simp add: full_name_def bnd_Inr)
qed (use assms in simp_all)

lemma author_names_shaped:
  "list_all shaped_author authors \<Longrightarrow> \<exists>ns. author_names authors = Inr ns"
proof (induction authors)
  case Nil
  then show ?case by simp
next
  case (Cons a authors)
  then obtain n ns where "full_name a = Inr n" "author_names authors = Inr ns"
    using full_name_shaped [of a] by auto
  then show ?case by (simp add: bnd_Inr)
qed

lemma item_authors_shaped:
  assumes "shaped_authors (field_or kv (lit ''author'') (JArr []))"
  shows "\<exists>s. item_authors (JObj kv) = Inr s"
proof (cases "field_or kv (lit ''author'') (JArr [])")
  case (JArr authors)
  with assms obtain ns where "author_names authors = Inr ns"
    using author_names_shaped [of authors] by auto
  with JArr show ?thesis
    by (simp add: item_authors_def bnd_Inr)
qed (use assms in simp_all)

text \<open>
  C5, as the code has it. The normalizer returns a record for every raw item whose
  fields, where present, have the shapes of the service's schema; fields may be
  missing, null or empty (a title that is null or an empty list, a published field that
  is null or an empty object, date parts that are null or empty, an empty author list,
  authors without names). Nothing is said here about an author list that is null.
\<close>

theorem well_shaped_items_normalize:
  assumes "well_shaped item"
  shows "\<exists>r. normalize_item item = Inr r"
proof (cases item)
  case (JObj kv)
  with assms obtain t y a where "item_title (JObj kv) = Inr t" "item_year (JObj kv) = Inr y"
    "item_authors (JObj kv) = Inr a"
    using item_title_shaped [of kv] item_year_shaped [of kv] item_authors_shaped [of kv]
    by auto
  with JObj show ?thesis
    by (simp add: normalize_item_def bnd_Inr)
qed (use assms in simp_all)


text \<open>
  C5 as stated fails: an item whose title is a number makes the normalizer raise
  \<open>TypeError\<close> (the number is true, and is not subscriptable).
\<close>

theorem malformed_title_counterexample:
  "normalize_item (JObj [(lit ''title'', JInt 5)]) = Inl TypeError"
  by (simp add: normalize_item_def item_title_def field_or_def bnd_def py_or_def lit_def)

text \<open>An item with an empty title list, an empty published field and a nameless author.\<close>

theorem well_shaped_items_normalize_witness:
  "well_shaped (JObj [(lit ''title'', JArr []), (lit ''published-print'', JObj []),
                       (lit ''author'', JArr [JObj []])]) \<and>
   (\<exists>r. normalize_item (JObj [(lit ''title'', JArr []), (lit ''published-print'', JObj []),
                               (lit ''author'', JArr [JObj []])]) = Inr r)"
proof -
  have shaped: "well_shaped (JObj [(lit ''title'', JArr []), (lit ''published-print'', JObj []),
                       (lit ''author'', JArr [JObj []])])"
    by (simp add: field_or_def lit_def)
  from well_shaped_items_normalize [OF shaped] shaped show ?thesis
    by simp
qed

section \<open>The fields of a record\<close>















section \<open>The year\<close>

lemma published_year_first:
  "map_of p (lit ''date-parts'') = Some (JArr (JArr (y # ys) # es)) \<Longrightarrow>
   published_year (JObj p) = Inr y"
  by (simp add: published_year_def field_or_def bnd_Inr py_or_def)

lemma published_year_first_empty:
  "map_of p (lit ''date-parts'') = Some (JArr (JArr [] # es)) \<Longrightarrow>
   published_year (JObj p) = Inr (JStr em_dash)"
  by (simp add: published_year_def field_or_def bnd_Inr py_or_def)

lemma published_year_lacking:
  "empty_date_parts (map_of p (lit ''date-parts'')) \<Longrightarrow>
   published_year (JObj p) = Inr (JStr em_dash)"
  by (cases "map_of p (lit ''date-parts'')" rule: empty_date_parts.cases)
    (simp_all add: published_year_def field_or_def bnd_Inr py_or_def)

lemma published_print:
  "map_of kv (lit ''published-print'') = Some (JObj p) \<Longrightarrow> p \<noteq> [] \<Longrightarrow>
   item_published (JObj kv) = Inr (JObj p)"
  by (simp add: item_published_def field_or_def bnd_Inr)

lemma published_online:
  "map_of kv (lit ''published-print'') = None \<Longrightarrow>
   map_of kv (lit ''published-online'') = Some (JObj q) \<Longrightarrow>
   item_published (JObj kv) = Inr (JObj q)"
  by (simp add: item_published_def field_or_def bnd_Inr py_or_def)

lemma item_year_lacking:
  assumes "lacks_date (map_of kv (lit ''published-print''))"
    and "lacks_date (map_of kv (lit ''published-online''))"
  shows "item_year (JObj kv) = Inr (JStr em_dash)"
proof -
  have none: "published_year (JObj []) = Inr (JStr em_dash)"
    by (rule published_year_lacking) simp
  have one: "published_year (field_or kv k JNull) = Inr (JStr em_dash)"
    if "lacks_date (map_of kv k)" "truthy (field_or kv k JNull)" for k
    using that
    by (cases "map_of kv k" rule: lacks_date.cases)
      (simp_all add: field_or_def published_year_lacking)
  show ?thesis
    using assms none one [of "lit ''published-print''"] one [of "lit ''published-online''"]
    by (simp add: item_year_def item_published_def bnd_Inr py_or_def)
qed

text \<open>
  C6, as the code has it. The year is the first component of the first date-parts entry
  of the published-print field when that entry is populated, and of the
  published-online field when published-print is absent; when the first entry is empty
  the year is the placeholder, whatever the later entries hold; and the year is the
  placeholder when neither published field carries date parts.
\<close>

theorem year_of_item:
  "(map_of kv (lit ''published-print'') = Some (JObj p) \<and>
    map_of p (lit ''date-parts'') = Some (JArr (JArr (y # ys) # es)) \<longrightarrow>
      item_year (JObj kv) = Inr y) \<and>
   (map_of kv (lit ''published-print'') = None \<and>
    map_of kv (lit ''published-online'') = Some (JObj q) \<and>
    map_of q (lit ''date-parts'') = Some (JArr (JArr (y # ys) # es)) \<longrightarrow>
      item_year (JObj kv) = Inr y) \<and>
   (map_of kv (lit ''published-print'') = Some (JObj p) \<and>
    map_of p (lit ''date-parts'') = Some (JArr (JArr [] # es)) \<longrightarrow>
      item_year (JObj kv) = Inr (JStr em_dash)) \<and>
   (lacks_date (map_of kv (lit ''published-print'')) \<and>
    lacks_date (map_of kv (lit ''published-online'')) \<longrightarrow>
      item_year (JObj kv) = Inr (JStr em_dash))"
proof (intro conjI impI)
  assume h: "map_of kv (lit ''published-print'') = Some (JObj p) \<and>
    map_of p (lit ''date-parts'') = Some (JArr (JArr (y # ys) # es))"
  then have "p \<noteq> []" by auto
  with h show "item_year (JObj kv) = Inr y"
    by (simp add: item_year_def published_print published_year_first bnd_Inr)
next
  assume h: "map_of kv (lit ''published-print'') = None \<and>
    map_of kv (lit ''published-online'') = Some (JObj q) \<and>
    map_of q (lit ''date-parts'') = Some (JArr (JArr (y # ys) # es))"
  then show "item_year (JObj kv) = Inr y"
    by (simp add: item_year_def published_online published_year_first bnd_Inr)
next
  assume h: "map_of kv (lit ''published-print'') = Some (JObj p) \<and>
    map_of p (lit ''date-parts'') = Some (JArr (JArr [] # es))"
  then have "p \<noteq> []" by auto
  with h show "item_year (JObj kv) = Inr (JStr em_dash)"
    by (simp add: item_year_def published_print published_year_first_empty bnd_Inr)
next
  assume "lacks_date (map_of kv (lit ''published-print'')) \<and>
    lacks_date (map_of kv (lit ''published-online''))"
  then show "item_year (JObj kv) = Inr (JStr em_dash)"
    by (simp add: item_year_lacking)
qed

text \<open>
  C6 as stated fails: with the date parts \<open>[[], [2020]]\<close> the first populated entry is
  \<open>[2020]\<close>, whose first component is 2020, and the year of the code is the
  placeholder.
\<close>

theorem later_date_entry_counterexample:
  "first_populated_entry [JArr [], JArr [JInt 2020]] = Some (JArr [JInt 2020]) \<and>
   subscript0 (JArr [JInt 2020]) = Inr (JInt 2020) \<and>
   item_year (JObj [(lit ''published-print'',
                     JObj [(lit ''date-parts'', JArr [JArr [], JArr [JInt 2020]])])]) =
     Inr (JStr em_dash)"
  by (simp add: first_populated_entry_def item_year_def item_published_def published_year_def
      field_or_def bnd_def py_or_def lit_def)


text \<open>Print before online, online alone, an empty first entry, no published field.\<close>

theorem year_of_item_witness:
  "item_year (JObj [(lit ''published-print'',
                     JObj [(lit ''date-parts'', JArr [JArr [JInt 2020, JInt 5]])]),
                    (lit ''published-online'',
                     JObj [(lit ''date-parts'', JArr [JArr [JInt 2019]])])]) = Inr (JInt 2020) \<and>
   item_year (JObj [(lit ''published-online'',
                     JObj [(lit ''date-parts'', JArr [JArr [JInt 2021]])])]) = Inr (JInt 2021) \<and>
   item_year (JObj [(lit ''published-print'',
                     JObj [(lit ''date-parts'', JArr [JArr [], JArr [JInt 2020]])])]) =
     Inr (JStr em_dash) \<and>
   item_year (JObj [(lit ''title'', JArr [])]) = Inr (JStr em_dash)"
proof -
  have a: "item_year (JObj [(lit ''published-print'',
                     JObj [(lit ''date-parts'', JArr [JArr [JInt 2020, JInt 5]])]),
                    (lit ''published-online'',
                     JObj [(lit ''date-parts'', JArr [JArr [JInt 2019]])])]) = Inr (JInt 2020)"
    using year_of_item [where kv = "[(lit ''published-print'',
                     JObj [(lit ''date-parts'', JArr [JArr [JInt 2020, JInt 5]])]),
                    (lit ''published-online'',
                     JObj [(lit ''date-parts'', JArr [JArr [JInt 2019]])])]"
        and p = "[(lit ''date-parts'', JArr [JArr [JInt 2020, JInt 5]])]"
        and y = "JInt 2020" and ys = "[JInt 5]" and es = "[]", THEN conjunct1]
    by simp
  have b: "item_year (JObj [(lit ''published-online'',
                     JObj [(lit ''date-parts'', JArr [JArr [JInt 2021]])])]) = Inr (JInt 2021)"
    using year_of_item [where kv = "[(lit ''published-online'',
                     JObj [(lit ''date-parts'', JArr [JArr [JInt 2021]])])]"
        and q = "[(lit ''date-parts'', JArr [JArr [JInt 2021]])]"
        and y = "JInt 2021" and ys = "[]" and es = "[]", THEN conjunct2, THEN conjunct1]
    by (simp add: lit_def)
  have c: "item_year (JObj [(lit ''published-print'',
                     JObj [(lit ''date-parts'', JArr [JArr [], JArr [JInt 2020]])])]) =
     Inr (JStr em_dash)"
    using year_of_item [where kv = "[(lit ''published-print'',
                     JObj [(lit ''date-parts'', JArr [JArr [], JArr [JInt 2020]])])]"
        and p = "[(lit ''date-parts'', JArr [JArr [], JArr [JInt 2020]])]"
        and es = "[JArr [JInt 2020]]", THEN conjunct2, THEN conjunct2, THEN conjunct1]
    by simp
  have d: "item_year (JObj [(lit ''title'', JArr [])]) = Inr (JStr em_dash)"
    using year_of_item [where kv = "[(lit ''title'', JArr [])]",
        THEN conjunct2, THEN conjunct2, THEN conjunct2]
    by (simp add: lit_def)
  from a b c d show ?thesis by (intro conjI)
qed

section \<open>Integers written and read back\<close>




















section \<open>The CSV text read back\<close>













section \<open>The download\<close>


















section \<open>The round trip through CSV\<close>









end
